theory Spec2Isabelle
  imports Main "HOL-Library.Char_ord" "HOL-Library.List_Lexorder" "HOL-Library.Product_Lexorder"
    "HOL-Library.Multiset"
begin

section \<open>Python values and exceptions\<close>

text \<open>
  The exceptions that the program can meet. \<open>KeyError\<close> carries the missing label,
  \<open>MergeError\<close> is the exception of that name of the data frame library,
  \<open>DatabaseError\<close> stands for whatever the database driver raises.
\<close>

datatype error = KeyError string | ValueError | TypeError | MergeError | DatabaseError | IOError

subsection \<open>Strings\<close>

text \<open>
  \<open>str.strip()\<close>, \<open>str.lower()\<close>, \<open>str.startswith\<close> and \<open>str.split('=', 1)\<close>
  on text whose characters are code points below 256. The white space characters are
  those for which \<open>str.isspace\<close> holds there: the ASCII ones and the code points 133
  (next line) and 160 (no-break space). The capital letters are A to Z and the capital
  letters of Latin-1, 192 to 222 without the multiplication sign 215.
\<close>

definition isspace :: "char \<Rightarrow> bool" where
  "isspace c = ((of_char c :: nat) \<in> {9, 10, 11, 12, 13, 28, 29, 30, 31, 32, 133, 160})"

definition strip :: "string \<Rightarrow> string" where
  "strip s = rev (dropWhile isspace (rev (dropWhile isspace s)))"

definition isupper :: "char \<Rightarrow> bool" where
  "isupper c =
     (let n = (of_char c :: nat)
      in (65 \<le> n \<and> n \<le> 90) \<or> (192 \<le> n \<and> n \<le> 222 \<and> n \<noteq> 215))"

definition lower_char :: "char \<Rightarrow> char" where
  "lower_char c = (if isupper c then char_of ((of_char c :: nat) + 32) else c)"

definition lower :: "string \<Rightarrow> string" where
  "lower s = map lower_char s"

definition startswith :: "string \<Rightarrow> string \<Rightarrow> bool" where
  "startswith s p = (take (length p) s = p)"

definition split_first :: "char \<Rightarrow> string \<Rightarrow> string \<times> string" where
  "split_first sep s = (takeWhile (\<lambda>c. c \<noteq> sep) s, tl (dropWhile (\<lambda>c. c \<noteq> sep) s))"

subsection \<open>The conversion \<open>int(str)\<close>\<close>

text \<open>
  \<open>int\<close> on a string: surrounding white space is dropped, one sign is allowed, then
  decimal digits, where single underscores may stand between two digits. Anything else
  is a \<open>ValueError\<close> (\<open>None\<close> here). Below code point 256 the decimal digits are
  0 to 9. The bound that recent interpreters put on the number of digits is left out.
\<close>

definition isdigit :: "char \<Rightarrow> bool" where
  "isdigit c = (48 \<le> (of_char c :: nat) \<and> (of_char c :: nat) \<le> 57)"

definition digit_val :: "char \<Rightarrow> int" where
  "digit_val c = int (of_char c) - 48"

fun parse_digits :: "string \<Rightarrow> int \<Rightarrow> int option" where
  "parse_digits [] acc = Some acc"
| "parse_digits [c] acc = (if isdigit c then Some (10 * acc + digit_val c) else None)"
| "parse_digits (c # d # ds) acc =
     (if isdigit c then parse_digits (d # ds) (10 * acc + digit_val c)
      else if c = CHR ''_'' \<and> isdigit d then parse_digits ds (10 * acc + digit_val d)
      else None)"

definition parse_unsigned :: "string \<Rightarrow> int option" where
  "parse_unsigned s =
     (case s of [] \<Rightarrow> None
      | c # cs \<Rightarrow> if isdigit c then parse_digits cs (digit_val c) else None)"

definition py_int_str :: "string \<Rightarrow> int option" where
  "py_int_str s =
     (case strip s of [] \<Rightarrow> None
      | c # cs \<Rightarrow>
          if c = CHR ''-'' then map_option uminus (parse_unsigned cs)
          else if c = CHR ''+'' then parse_unsigned cs
          else parse_unsigned (c # cs))"

section \<open>Config loader\<close>

text \<open>
  \<open>load_config\<close> reads \<open>config.txt\<close> when it exists. The file is given as the list of
  its lines, \<open>None\<close> when the file is absent. The dictionary \<open>config\<close> is a map that
  the loop over the lines updates.
\<close>

record db_config =
  host :: string
  database :: string
  user :: string
  password :: string
  port :: int

fun read_lines :: "(string \<rightharpoonup> string) \<Rightarrow> string list \<Rightarrow> (string \<rightharpoonup> string)" where
  "read_lines config [] = config"
| "read_lines config (l # ls) =
     (let line = strip l in
      if line \<noteq> [] \<and> \<not> startswith line ''#'' \<and> CHR ''='' \<in> set line
      then (case split_first CHR ''='' line of
              (key, val) \<Rightarrow> read_lines (config(lower (strip key) \<mapsto> strip val)) ls)
      else read_lines config ls)"

definition read_config_file :: "string list option \<Rightarrow> (string \<rightharpoonup> string)" where
  "read_config_file f = (case f of None \<Rightarrow> Map.empty | Some ls \<Rightarrow> read_lines Map.empty ls)"

definition get_default :: "(string \<rightharpoonup> string) \<Rightarrow> string \<Rightarrow> string \<Rightarrow> string" where
  "get_default config k d = (case config k of None \<Rightarrow> d | Some v \<Rightarrow> v)"

definition port_of :: "(string \<rightharpoonup> string) \<Rightarrow> error + int" where
  "port_of config =
     (case config ''port'' of None \<Rightarrow> Inr 5432
      | Some v \<Rightarrow> (case py_int_str v of None \<Rightarrow> Inl ValueError | Some n \<Rightarrow> Inr n))"

definition load_config :: "string list option \<Rightarrow> error + db_config" where
  "load_config f =
     (let config = read_config_file f in
      case port_of config of
        Inl e \<Rightarrow> Inl e
      | Inr p \<Rightarrow> Inr \<lparr>host = get_default config ''host'' ''localhost'',
                    database = get_default config ''database'' ''your_database'',
                    user = get_default config ''user'' ''your_username'',
                    password = get_default config ''password'' ''your_password'',
                    port = p\<rparr>)"

section \<open>Result tables\<close>

text \<open>
  A data frame is its column labels, each with the kind of its dtype (\<open>Number\<close> for
  the integer and floating dtypes that \<open>select_dtypes(include=['number'])\<close> selects,
  \<open>Object\<close> for all others), and its rows, each row holding one cell per column in
  the order of the labels. \<open>NaN\<close> is the missing value. Counts are held as integers:
  the conversion of an integer column to floating point by a join changes no count below
  \<open>2 ^ 53\<close>.
\<close>

datatype cell = NumV int | StrV string | NaN

datatype dtype = Number | Object

record dataframe =
  columns :: "(string \<times> dtype) list"
  rows :: "cell list list"

definition is_num :: "cell \<Rightarrow> bool" where
  "is_num c = (case c of NumV _ \<Rightarrow> True | _ \<Rightarrow> False)"

definition is_str :: "cell \<Rightarrow> bool" where
  "is_str c = (case c of StrV _ \<Rightarrow> True | _ \<Rightarrow> False)"

definition DataFrame :: dataframe where
  "DataFrame = \<lparr>columns = [], rows = []\<rparr>"

definition df_empty :: "dataframe \<Rightarrow> bool" where
  "df_empty df = (columns df = [] \<or> rows df = [])"

definition labels :: "dataframe \<Rightarrow> string list" where
  "labels df = map fst (columns df)"

definition positions :: "string \<Rightarrow> string list \<Rightarrow> nat list" where
  "positions name ls = filter (\<lambda>i. ls ! i = name) [0..<length ls]"

definition column_at :: "nat \<Rightarrow> dataframe \<Rightarrow> cell list" where
  "column_at i df = map (\<lambda>row. row ! i) (rows df)"

text \<open>
  The position of the label a frame is joined or sorted on: a missing label is a
  \<open>KeyError\<close>, a label that occurs twice a \<open>ValueError\<close>.
\<close>

definition label_position :: "string \<Rightarrow> dataframe \<Rightarrow> error + nat" where
  "label_position name df =
     (case positions name (labels df) of
        [] \<Rightarrow> Inl (KeyError name)
      | [i] \<Rightarrow> Inr i
      | _ \<Rightarrow> Inl ValueError)"

section \<open>Result merger\<close>

subsection \<open>The outer join \<open>pd.merge(left, right, on='dossier', how='outer')\<close>\<close>

text \<open>
  The join first looks up the key column of the right frame, then that of the left
  frame. Key columns of a number dtype and of an object dtype cannot be joined when
  the object column holds strings and no number: \<open>ValueError\<close>.

  The keys of the result are the keys of both frames in lexicographic order, numbers
  before strings and missing keys last. A key of both frames gives every pairing of
  its left and right rows; a key of one frame only gives its rows with \<open>NaN\<close> in the
  columns of the other frame. The columns are those of the left frame followed by
  those of the right frame without its key; a label that both sides carry gets the
  suffix \<open>_x\<close> on the left and \<open>_y\<close> on the right. When a suffix makes a label equal
  to an earlier label of the same side that the side did not already repeat, the join
  raises \<open>MergeError\<close>. The key column of the result has the dtype of the two key
  columns when they agree and is an object column otherwise.

  Not covered: key columns of different dtypes of which the object one is empty or
  holds nothing but missing values, and what the library does with a frame that carries
  a label other than the key twice. The statements on the merger are about the frame
  that a join returns and do not say that it returns one.
\<close>

definition string_like :: "cell list \<Rightarrow> bool" where
  "string_like cs = (list_ex is_str cs \<and> \<not> list_ex is_num cs)"

definition key_conflict :: "dtype \<Rightarrow> cell list \<Rightarrow> dtype \<Rightarrow> cell list \<Rightarrow> bool" where
  "key_conflict dl cl dr cr =
     (dl \<noteq> dr \<and> string_like (if dl = Object then cl else cr))"

definition suffix_duplicates :: "string list \<Rightarrow> string list \<Rightarrow> bool" where
  "suffix_duplicates renamed original =
     list_ex (\<lambda>p. renamed ! p \<in> set (take p renamed) \<and> original ! p \<notin> set (take p original))
       [0..<length renamed]"

definition cell_key :: "cell \<Rightarrow> nat \<times> int \<times> string" where
  "cell_key c = (case c of NumV n \<Rightarrow> (0, n, []) | StrV s \<Rightarrow> (1, 0, s) | NaN \<Rightarrow> (2, 0, []))"

definition drop_nth :: "nat \<Rightarrow> 'a list \<Rightarrow> 'a list" where
  "drop_nth j xs = take j xs @ drop (Suc j) xs"

definition add_suffix :: "string list \<Rightarrow> string \<Rightarrow> string \<times> dtype \<Rightarrow> string \<times> dtype" where
  "add_suffix to_rename suffix col =
     (if fst col \<in> set to_rename then (fst col @ suffix, snd col) else col)"

definition join_key ::
  "dataframe \<Rightarrow> dataframe \<Rightarrow> nat \<Rightarrow> nat \<Rightarrow> cell \<Rightarrow> cell list list" where
  "join_key left right i j k =
     (let ls = filter (\<lambda>row. row ! i = k) (rows left);
          rs = filter (\<lambda>row. row ! j = k) (rows right)
      in if rs = [] then map (\<lambda>a. a @ replicate (length (columns right) - 1) NaN) ls
         else if ls = [] then
           map (\<lambda>b. (replicate (length (columns left)) NaN)[i := k] @ drop_nth j b) rs
         else concat (map (\<lambda>a. map (\<lambda>b. a @ drop_nth j b) rs) ls))"

definition pd_merge :: "dataframe \<Rightarrow> dataframe \<Rightarrow> error + dataframe" where
  "pd_merge left right =
     (case label_position ''dossier'' right of
        Inl e \<Rightarrow> Inl e
      | Inr j \<Rightarrow>
         (case label_position ''dossier'' left of
            Inl e \<Rightarrow> Inl e
          | Inr i \<Rightarrow>
             (let dl = snd (columns left ! i);
                  dr = snd (columns right ! j);
                  rcols = drop_nth j (columns right);
                  to_rename = filter (\<lambda>c. c \<in> set (map fst rcols)) (labels left);
                  lcols = map (add_suffix to_rename ''_x'') (columns left);
                  rcols' = map (add_suffix to_rename ''_y'') rcols;
                  keys = sort_key cell_key (remdups (column_at i left @ column_at j right))
              in if key_conflict dl (column_at i left) dr (column_at j right)
                 then Inl ValueError
                 else if suffix_duplicates (map fst lcols) (labels left)
                         \<or> suffix_duplicates (map fst rcols') (map fst rcols)
                 then Inl MergeError
                 else Inr \<lparr>columns =
                             lcols[i := (''dossier'', if dl = dr then dl else Object)] @ rcols',
                           rows = concat (map (join_key left right i j) keys)\<rparr>)))"

subsection \<open>\<open>merge_dataframes\<close>\<close>

fun merge_loop :: "dataframe \<Rightarrow> dataframe list \<Rightarrow> error + dataframe" where
  "merge_loop result [] = Inr result"
| "merge_loop result (df # dfs) =
     (case pd_merge result df of Inl e \<Rightarrow> Inl e | Inr r \<Rightarrow> merge_loop r dfs)"

definition fill_number :: "(string \<times> dtype) \<Rightarrow> cell \<Rightarrow> cell" where
  "fill_number col c = (if snd col = Number \<and> c = NaN then NumV 0 else c)"

definition fillna_numeric :: "dataframe \<Rightarrow> dataframe" where
  "fillna_numeric df = df\<lparr>rows := map (\<lambda>row. map2 fill_number (columns df) row) (rows df)\<rparr>"

definition fill_str :: "cell \<Rightarrow> cell" where
  "fill_str c = (if c = NaN then StrV [] else c)"

definition fillna_str :: "dataframe \<Rightarrow> dataframe" where
  "fillna_str df = df\<lparr>rows := map (map fill_str) (rows df)\<rparr>"

definition merge_dataframes :: "dataframe list \<Rightarrow> error + dataframe" where
  "merge_dataframes dataframes =
     (case dataframes of
        [] \<Rightarrow> Inr DataFrame
      | first # rest \<Rightarrow>
          (case merge_loop first rest of
             Inl e \<Rightarrow> Inl e
           | Inr result \<Rightarrow> Inr (fillna_str (fillna_numeric result))))"

section \<open>Ordering by a column\<close>

text \<open>
  \<open>sort_values(by, ascending=False, na_position='last')\<close>: the rows whose value is
  missing are set aside, the others are reversed, sorted in ascending order of the
  value and reversed again, and the rows set aside follow. Numbers are compared as
  numbers, strings as strings; a column that mixes both cannot be compared.
\<close>

definition num_of :: "cell \<Rightarrow> int" where
  "num_of c = (case c of NumV n \<Rightarrow> n | _ \<Rightarrow> 0)"

definition str_of :: "cell \<Rightarrow> string" where
  "str_of c = (case c of StrV s \<Rightarrow> s | _ \<Rightarrow> [])"

definition sort_desc :: "('a \<Rightarrow> 'k::linorder) \<Rightarrow> 'a list \<Rightarrow> 'a list" where
  "sort_desc f xs = rev (sort_key f (rev xs))"

definition sort_values :: "string \<Rightarrow> dataframe \<Rightarrow> error + dataframe" where
  "sort_values by df =
     (case label_position by df of
        Inl e \<Rightarrow> Inl e
      | Inr i \<Rightarrow>
         (let present = filter (\<lambda>row. row ! i \<noteq> NaN) (rows df);
              missing = filter (\<lambda>row. row ! i = NaN) (rows df)
          in if list_all (\<lambda>row. is_num (row ! i)) present
             then Inr (df\<lparr>rows := sort_desc (\<lambda>row. num_of (row ! i)) present @ missing\<rparr>)
             else if list_all (\<lambda>row. is_str (row ! i)) present
             then Inr (df\<lparr>rows := sort_desc (\<lambda>row. str_of (row ! i)) present @ missing\<rparr>)
             else Inl TypeError))"

section \<open>Report renderer\<close>

text \<open>
  \<open>int(x)\<close> on a cell, \<open>row.get(label, default)\<close> and \<open>row[label]\<close> on a row of a
  frame. \<open>int\<close> of the missing value is a \<open>ValueError\<close>.
\<close>

definition py_int :: "cell \<Rightarrow> error + int" where
  "py_int c =
     (case c of
        NumV n \<Rightarrow> Inr n
      | StrV s \<Rightarrow> (case py_int_str s of None \<Rightarrow> Inl ValueError | Some n \<Rightarrow> Inr n)
      | NaN \<Rightarrow> Inl ValueError)"

definition row_get :: "dataframe \<Rightarrow> cell list \<Rightarrow> string \<Rightarrow> cell \<Rightarrow> cell" where
  "row_get df row name dflt =
     (case positions name (labels df) of [] \<Rightarrow> dflt | i # _ \<Rightarrow> row ! i)"

definition row_item :: "dataframe \<Rightarrow> cell list \<Rightarrow> string \<Rightarrow> error + cell" where
  "row_item df row name =
     (case positions name (labels df) of [] \<Rightarrow> Inl (KeyError name) | i # _ \<Rightarrow> Inr (row ! i))"

text \<open>The severity classes of the two flagged metrics, as the class names of the cells.\<close>

definition pieces_class :: "int \<Rightarrow> string" where
  "pieces_class pieces_a_traiter =
     (if pieces_a_traiter > 50 then ''warning''
      else if pieces_a_traiter = 0 then ''good'' else [])"

definition comptes_class :: "int \<Rightarrow> string" where
  "comptes_class comptes_attente =
     (if comptes_attente > 10 then ''warning''
      else if comptes_attente = 0 then ''good'' else [])"

text \<open>
  One table row of the document: the values that the template prints, in the order in
  which the loop body computes them, and the classes of the two flagged cells. The
  document is held as the values that the template receives (the counts of the cards
  and the table rows); its fixed text, its style sheet and its time stamp are left out.
\<close>

record html_row =
  td_dossier :: cell
  td_pieces_exportees :: int
  td_ecritures_exportees :: int
  td_pieces_a_traiter :: int
  td_pieces_class :: string
  td_ecritures_a_traiter :: int
  td_comptes_attente :: int
  td_comptes_class :: string
  td_date_min :: cell
  td_date_max :: cell

definition render_row :: "dataframe \<Rightarrow> cell list \<Rightarrow> error + html_row" where
  "render_row df row =
     (case py_int (row_get df row ''nb_pieces_a_traiter'' (NumV 0)) of Inl e \<Rightarrow> Inl e
      | Inr pieces_a_traiter \<Rightarrow>
     (case py_int (row_get df row ''nb_comptes_attente'' (NumV 0)) of Inl e \<Rightarrow> Inl e
      | Inr comptes_attente \<Rightarrow>
     (case row_item df row ''dossier'' of Inl e \<Rightarrow> Inl e
      | Inr dossier \<Rightarrow>
     (case py_int (row_get df row ''nb_pieces_exportees'' (NumV 0)) of Inl e \<Rightarrow> Inl e
      | Inr pieces_exportees \<Rightarrow>
     (case py_int (row_get df row ''nb_ecritures_exportees'' (NumV 0)) of Inl e \<Rightarrow> Inl e
      | Inr ecritures_exportees \<Rightarrow>
     (case py_int (row_get df row ''nb_ecritures_a_traiter'' (NumV 0)) of Inl e \<Rightarrow> Inl e
      | Inr ecritures_a_traiter \<Rightarrow>
        Inr \<lparr>td_dossier = dossier,
             td_pieces_exportees = pieces_exportees,
             td_ecritures_exportees = ecritures_exportees,
             td_pieces_a_traiter = pieces_a_traiter,
             td_pieces_class = pieces_class pieces_a_traiter,
             td_ecritures_a_traiter = ecritures_a_traiter,
             td_comptes_attente = comptes_attente,
             td_comptes_class = comptes_class comptes_attente,
             td_date_min = row_get df row ''date_min_a_traiter'' (StrV []),
             td_date_max = row_get df row ''date_max_a_traiter'' (StrV [])\<rparr>))))))"

fun render_rows :: "dataframe \<Rightarrow> cell list list \<Rightarrow> error + html_row list" where
  "render_rows df [] = Inr []"
| "render_rows df (row # rest) =
     (case render_row df row of
        Inl e \<Rightarrow> Inl e
      | Inr tr \<Rightarrow> (case render_rows df rest of Inl e \<Rightarrow> Inl e | Inr trs \<Rightarrow> Inr (tr # trs)))"

text \<open>
  The totals: the sum of every column of a number dtype, under its label (a label that
  occurs twice keeps the later sum); \<open>totals.get(label, 0)\<close> reads them.
\<close>

definition totals_get :: "dataframe \<Rightarrow> string \<Rightarrow> int" where
  "totals_get df name =
     (case filter (\<lambda>i. snd (columns df ! i) = Number) (positions name (labels df)) of
        [] \<Rightarrow> 0
      | p # ps \<Rightarrow> sum_list (map num_of (column_at (last (p # ps)) df)))"

record report =
  total_dossiers :: nat
  total_pieces_a_traiter :: int
  total_ecritures_a_traiter :: int
  total_comptes_attente :: int
  table_rows :: "html_row list"

definition html_content :: "dataframe \<Rightarrow> error + report" where
  "html_content df =
     (case render_rows df (rows df) of
        Inl e \<Rightarrow> Inl e
      | Inr trs \<Rightarrow>
          Inr \<lparr>total_dossiers = length (rows df),
               total_pieces_a_traiter = totals_get df ''nb_pieces_a_traiter'',
               total_ecritures_a_traiter = totals_get df ''nb_ecritures_a_traiter'',
               total_comptes_attente = totals_get df ''nb_comptes_attente'',
               table_rows = trs\<rparr>)"

section \<open>Orchestrator\<close>

text \<open>
  What a run meets outside the program: the lines of \<open>config.txt\<close> (\<open>None\<close> when the
  file is absent), whether the database accepts the connection, the answer of the
  database to each query of the catalog (an exception or a frame), whether the output
  file can be written, and the date of the day as \<open>YYYYMMDD\<close>.
\<close>

record world =
  config_file :: "string list option"
  connect_ok :: "db_config \<Rightarrow> bool"
  read_sql_query :: "string \<Rightarrow> error + dataframe"
  file_writable :: bool
  today :: string

text \<open>The lines that the program prints, and what a run does that can be observed.\<close>

datatype message =
    Banner | Rule
  | ConfigMissing | ConfigHelp | ConfigHelpHost | ConfigHelpDatabase | ConfigHelpUser
  | ConfigHelpPassword | ConfigHelpPort
  | ConnectionError
  | QueryDone string nat | QueryError string error
  | ReportWritten string
  | Generated | FileIs string | Opening
  | NoData
  | GenerationError error
  | Finished

datatype event =
    Print message
  | Input
  | Connect db_config
  | RunQuery string
  | WriteFile string report
  | OpenBrowser string
  | CloseConnection

text \<open>The names of the catalog, in the order of the dictionary \<open>QUERIES\<close>.\<close>

definition QUERIES :: "string list" where
  "QUERIES = [''pieces_exportees'', ''ecritures_exportees'', ''pieces_non_exportees'',
              ''ecritures_non_exportees'', ''comptes_attente'', ''dates_extremes'']"

definition execute_query :: "world \<Rightarrow> string \<Rightarrow> event list \<times> dataframe" where
  "execute_query w query_name =
     (case read_sql_query w query_name of
        Inr df \<Rightarrow> ([RunQuery query_name, Print (QueryDone query_name (length (rows df)))], df)
      | Inl e \<Rightarrow> ([RunQuery query_name, Print (QueryError query_name e)], DataFrame))"

fun run_queries :: "world \<Rightarrow> string list \<Rightarrow> event list \<times> dataframe list" where
  "run_queries w [] = ([], [])"
| "run_queries w (query_name # rest) =
     (case execute_query w query_name of
        (evs, df) \<Rightarrow>
          (case run_queries w rest of
             (evs', dataframes) \<Rightarrow>
               (evs @ evs', if df_empty df then dataframes else df # dataframes)))"

definition generate_html_report :: "world \<Rightarrow> dataframe \<Rightarrow> string \<Rightarrow> error + event list" where
  "generate_html_report w df output_file =
     (case html_content df of
        Inl e \<Rightarrow> Inl e
      | Inr doc \<Rightarrow>
          if file_writable w
          then Inr [WriteFile output_file doc, Print (ReportWritten output_file)]
          else Inl IOError)"

text \<open>
  The body of the \<open>try\<close> block after the queries: either the events of a run that
  went through, or the exception that reaches the handler.
\<close>

definition build_report :: "world \<Rightarrow> dataframe list \<Rightarrow> error + event list" where
  "build_report w dataframes =
     (if dataframes = [] then Inr [Print NoData, Input]
      else
        (case merge_dataframes dataframes of
           Inl e \<Rightarrow> Inl e
         | Inr merged \<Rightarrow>
            (case sort_values ''nb_pieces_a_traiter'' merged of
               Inl e \<Rightarrow> Inl e
             | Inr final_df \<Rightarrow>
                (let output_file = ''kpi_dashboard_'' @ today w @ ''.html'' in
                 case generate_html_report w final_df output_file of
                   Inl e \<Rightarrow> Inl e
                 | Inr evs \<Rightarrow>
                     Inr (evs @ [Print Rule, Print Generated, Print (FileIs output_file),
                                 Print Opening, OpenBrowser output_file])))))"

definition main :: "world \<Rightarrow> db_config \<Rightarrow> event list" where
  "main w cfg =
     [Print Banner, Print Rule] @
     (if config_file w = None
      then [Print ConfigMissing, Print ConfigHelp, Print ConfigHelpHost,
            Print ConfigHelpDatabase, Print ConfigHelpUser, Print ConfigHelpPassword,
            Print ConfigHelpPort, Input]
      else if connect_ok w cfg
      then
        (case run_queries w QUERIES of
           (evs, dataframes) \<Rightarrow>
             [Connect cfg] @ evs @
             (case build_report w dataframes of
                Inr evs' \<Rightarrow> evs'
              | Inl e \<Rightarrow> [Print (GenerationError e), Input]) @
             [CloseConnection, Print Finished, Input])
      else [Connect cfg, Print ConnectionError, Input])"

text \<open>
  The program: the module first binds \<open>DB_CONFIG = load_config()\<close>, and an exception
  there ends the run before \<open>main\<close> is entered.
\<close>

datatype outcome = Returned | Raised error

definition run_program :: "world \<Rightarrow> outcome \<times> event list" where
  "run_program w =
     (case load_config (config_file w) of
        Inl e \<Rightarrow> (Raised e, [])
      | Inr cfg \<Rightarrow> (Returned, main w cfg))"

section \<open>The loader in the words of its description\<close>




section \<open>Example inputs\<close>

definition world_no_config :: world where
  "world_no_config = \<lparr>config_file = None, connect_ok = (\<lambda>_. True),
     read_sql_query = (\<lambda>_. Inl DatabaseError), file_writable = True, today = ''20240101''\<rparr>"


definition exportees :: dataframe where
  "exportees = \<lparr>columns = [(''dossier'', Object), (''nb_pieces_exportees'', Number)],
                 rows = [[StrV ''A'', NumV 5]]\<rparr>"

definition a_traiter :: dataframe where
  "a_traiter = \<lparr>columns = [(''dossier'', Object), (''nb_pieces_a_traiter'', Number)],
                 rows = [[StrV ''A'', NumV 60], [StrV ''B'', NumV 3]]\<rparr>"

definition merged_example :: dataframe where
  "merged_example =
     \<lparr>columns = [(''dossier'', Object), (''nb_pieces_exportees'', Number),
                 (''nb_pieces_a_traiter'', Number)],
      rows = [[StrV ''A'', NumV 5, NumV 60], [StrV ''B'', NumV 0, NumV 3]]\<rparr>"

definition tr_A :: html_row where
  "tr_A = \<lparr>td_dossier = StrV ''A'', td_pieces_exportees = 5, td_ecritures_exportees = 0,
            td_pieces_a_traiter = 60, td_pieces_class = ''warning'',
            td_ecritures_a_traiter = 0, td_comptes_attente = 0, td_comptes_class = ''good'',
            td_date_min = StrV [], td_date_max = StrV []\<rparr>"

definition tr_B :: html_row where
  "tr_B = \<lparr>td_dossier = StrV ''B'', td_pieces_exportees = 0, td_ecritures_exportees = 0,
            td_pieces_a_traiter = 3, td_pieces_class = [],
            td_ecritures_a_traiter = 0, td_comptes_attente = 0, td_comptes_class = ''good'',
            td_date_min = StrV [], td_date_max = StrV []\<rparr>"

definition default_config :: db_config where
  "default_config = \<lparr>host = ''localhost'', database = ''your_database'',
                      user = ''your_username'', password = ''your_password'', port = 5432\<rparr>"

definition one_row :: "string \<Rightarrow> dataframe" where
  "one_row label = \<lparr>columns = [(''dossier'', Object), (label, Number)],
                     rows = [[StrV ''A'', NumV 5]]\<rparr>"

definition dates_example :: dataframe where
  "dates_example =
     \<lparr>columns = [(''dossier'', Object), (''date_min_a_traiter'', Object),
                 (''date_max_a_traiter'', Object)],
      rows = [[StrV ''A'', StrV ''01-02-2024'', StrV ''03-04-2024'']]\<rparr>"

definition answers :: "string \<Rightarrow> error + dataframe" where
  "answers query_name =
     (if query_name = ''pieces_exportees'' then Inr (one_row ''nb_pieces_exportees'')
      else if query_name = ''ecritures_exportees'' then Inr (one_row ''nb_ecritures_exportees'')
      else if query_name = ''pieces_non_exportees'' then Inr (one_row ''nb_pieces_a_traiter'')
      else if query_name = ''ecritures_non_exportees''
        then Inr (one_row ''nb_ecritures_a_traiter'')
      else if query_name = ''comptes_attente'' then Inr (one_row ''nb_comptes_attente'')
      else if query_name = ''dates_extremes'' then Inr dates_example
      else Inl DatabaseError)"

definition world_all_answered :: world where
  "world_all_answered = world_no_config\<lparr>config_file := Some [], read_sql_query := answers\<rparr>"

definition world_pieces_query_fails :: world where
  "world_pieces_query_fails =
     world_all_answered\<lparr>read_sql_query :=
        (\<lambda>query_name. if query_name = ''pieces_non_exportees'' then Inl DatabaseError
                       else answers query_name)\<rparr>"

definition world_comptes_query_fails :: world where
  "world_comptes_query_fails =
     world_all_answered\<lparr>read_sql_query :=
        (\<lambda>query_name. if query_name = ''comptes_attente'' then Inl DatabaseError
                       else answers query_name)\<rparr>"

definition world_no_answers :: world where
  "world_no_answers =
     world_no_config\<lparr>config_file := Some [],
        read_sql_query :=
          (\<lambda>query_name. if query_name = ''dates_extremes''
                         then Inr (dates_example\<lparr>rows := []\<rparr>) else Inl DatabaseError)\<rparr>"

definition report_example :: report where
  "report_example =
     \<lparr>total_dossiers = 1, total_pieces_a_traiter = 5, total_ecritures_a_traiter = 5,
      total_comptes_attente = 0,
      table_rows =
        [\<lparr>td_dossier = StrV ''A'', td_pieces_exportees = 5, td_ecritures_exportees = 5,
          td_pieces_a_traiter = 5, td_pieces_class = [], td_ecritures_a_traiter = 5,
          td_comptes_attente = 0, td_comptes_class = ''good'',
          td_date_min = StrV ''01-02-2024'', td_date_max = StrV ''03-04-2024''\<rparr>]\<rparr>"

text \<open>A table whose only row has the empty dossier, and the document of the scenario of
  the two tables.\<close>

definition blank_dossier :: dataframe where
  "blank_dossier = \<lparr>columns = [(''dossier'', Object), (''nb_pieces_a_traiter'', Number)],
                     rows = [[StrV [], NumV 1]]\<rparr>"


text \<open>Frames for the joins that the library refuses, and a frame with a missing dossier.\<close>

definition null_dossier :: dataframe where
  "null_dossier = \<lparr>columns = [(''dossier'', Object), (''nb_pieces_a_traiter'', Number)],
                    rows = [[NaN, NumV 1]]\<rparr>"

definition numbered_dossiers :: dataframe where
  "numbered_dossiers = \<lparr>columns = [(''dossier'', Number), (''nb_pieces_exportees'', Number)],
                         rows = [[NumV 1, NumV 5]]\<rparr>"

definition twice_suffixed :: dataframe where
  "twice_suffixed =
     \<lparr>columns = [(''dossier'', Object), (''nb_pieces_a_traiter'', Number),
                 (''nb_pieces_a_traiter_x'', Number)],
      rows = [[StrV ''A'', NumV 1, NumV 2]]\<rparr>"


section \<open>Predicates of the statements\<close>

text \<open>A query that contributes nothing: it raised, or its frame is empty.\<close>

definition no_rows :: "world \<Rightarrow> string \<Rightarrow> bool" where
  "no_rows w query_name =
     (case read_sql_query w query_name of Inl e \<Rightarrow> True | Inr df \<Rightarrow> df_empty df)"

text \<open>
  A frame is well formed when every row has one cell per column, as every frame of the
  library is. It is keyed by \<open>dossier\<close> when moreover exactly one column carries that
  label. \<open>dossier_values\<close> is the set of the values of that column.
\<close>

definition wf_frame :: "dataframe \<Rightarrow> bool" where
  "wf_frame df = list_all (\<lambda>row. length row = length (columns df)) (rows df)"

definition dossier_values :: "dataframe \<Rightarrow> cell set" where
  "dossier_values df =
     (case label_position ''dossier'' df of Inl e \<Rightarrow> {} | Inr i \<Rightarrow> set (column_at i df))"

definition keyed :: "dataframe \<Rightarrow> bool" where
  "keyed df =
     (wf_frame df \<and>
      (case label_position ''dossier'' df of Inl e \<Rightarrow> False | Inr i \<Rightarrow> True))"

text \<open>
  The filling of a cell as the description of the merger gives it: a missing cell
  becomes 0 in a column of numbers and the empty string in any other column.
\<close>

definition filled :: "string \<times> dtype \<Rightarrow> cell \<Rightarrow> cell" where
  "filled col c = (if c = NaN then (if snd col = Number then NumV 0 else StrV []) else c)"


section \<open>Properties of the config loader\<close>


text \<open>
  What the string operations of the loader do: \<open>strip\<close> removes white space, and
  nothing else, from both ends, until a character that is no white space stands at
  each end; \<open>split_first\<close> cuts at the first occurrence of the separator.
\<close>

lemma isspace_code: "isspace (char_of n) = (n mod 256 \<in> {9, 10, 11, 12, 13, 28, 29, 30, 31, 32, 133, 160 :: nat})"
  by (simp add: isspace_def)

lemma isdigit_code: "isdigit (char_of n) = (48 \<le> n mod 256 \<and> n mod 256 \<le> (57 :: nat))"
  by (simp add: isdigit_def)










section \<open>Properties of the renderer\<close>

text \<open>
  C7: in every table row that the renderer produces, the class of the cell
  "pieces to process" is decided by the value printed in that cell alone, with the
  thresholds 50 and 0, and the class of the cell "accounts pending" by its value alone,
  with the thresholds 10 and 0: above the threshold \<open>warning\<close> (flagged), at zero
  \<open>good\<close> (nominal), otherwise no class (neutral). In particular 50 pieces are
  neutral and 51 are flagged.
\<close>

theorem severity_classification:
  assumes "render_row df row = Inr tr"
  shows "td_pieces_class tr =
           (if td_pieces_a_traiter tr > 50 then ''warning''
            else if td_pieces_a_traiter tr = 0 then ''good'' else [])
       \<and> td_comptes_class tr =
           (if td_comptes_attente tr > 10 then ''warning''
            else if td_comptes_attente tr = 0 then ''good'' else [])
       \<and> pieces_class 50 = [] \<and> pieces_class 51 = ''warning'' \<and> pieces_class 0 = ''good''
       \<and> comptes_class 10 = [] \<and> comptes_class 11 = ''warning'' \<and> comptes_class 0 = ''good''"
proof -
  from assms have "td_pieces_class tr = pieces_class (td_pieces_a_traiter tr)
      \<and> td_comptes_class tr = comptes_class (td_comptes_attente tr)"
    by (auto simp: render_row_def split: sum.splits)
  then show ?thesis by (simp add: pieces_class_def comptes_class_def)
qed

theorem severity_classification_witness:
  "render_row merged_example [StrV ''A'', NumV 5, NumV 60] = Inr tr_A
   \<and> td_pieces_class tr_A = ''warning'' \<and> td_comptes_class tr_A = ''good''"
proof -
  have h: "render_row merged_example [StrV ''A'', NumV 5, NumV 60] = Inr tr_A"
    by code_simp
  have v: "td_pieces_a_traiter tr_A = 60" "td_comptes_attente tr_A = 0"
    by (simp_all add: tr_A_def)
  from severity_classification [OF h] v h show ?thesis by simp
qed

section \<open>Properties of the orchestrator\<close>

text \<open>
  C8: when \<open>config.txt\<close> is absent the run prints the banner and the instructions,
  waits for the acknowledgment and returns: nothing is raised and no connection is
  attempted.
\<close>

theorem config_absent_aborts:
  assumes "config_file w = None"
  shows "run_program w =
           (Returned, [Print Banner, Print Rule, Print ConfigMissing, Print ConfigHelp,
                       Print ConfigHelpHost, Print ConfigHelpDatabase, Print ConfigHelpUser,
                       Print ConfigHelpPassword, Print ConfigHelpPort, Input])
       \<and> Connect cfg \<notin> set (snd (run_program w))"
  using assms
  by (simp add: run_program_def load_config_def read_config_file_def port_of_def main_def
      Let_def)

theorem config_absent_aborts_witness:
  "run_program world_no_config =
     (Returned, [Print Banner, Print Rule, Print ConfigMissing, Print ConfigHelp,
                 Print ConfigHelpHost, Print ConfigHelpDatabase, Print ConfigHelpUser,
                 Print ConfigHelpPassword, Print ConfigHelpPort, Input])
   \<and> Connect \<lparr>host = ''localhost'', database = ''your_database'', user = ''your_username'',
               password = ''your_password'', port = 5432\<rparr>
       \<notin> set (snd (run_program world_no_config))"
proof -
  have h: "config_file world_no_config = None"
    by (simp add: world_no_config_def)
  show ?thesis by (rule config_absent_aborts [OF h])
qed

lemma run_queries_no_rows:
  "list_all (no_rows w) names \<Longrightarrow> snd (run_queries w names) = []"
proof (induction names)
  case Nil
  then show ?case by simp
next
  case (Cons n names)
  then show ?case
    by (auto simp: no_rows_def execute_query_def DataFrame_def df_empty_def
        split: sum.splits prod.splits)
qed

text \<open>
  Every query of the catalog is run, in the order of the catalog, whatever the
  earlier ones answered; a query that raises is reported and counts as an empty frame.
\<close>

lemma execute_query_raises:
  "read_sql_query w query_name = Inl e \<Longrightarrow>
   execute_query w query_name =
     ([RunQuery query_name, Print (QueryError query_name e)], DataFrame)"
  by (simp add: execute_query_def)

lemma run_queries_runs_all:
  "filter (\<lambda>ev. case ev of RunQuery n \<Rightarrow> True | _ \<Rightarrow> False) (fst (run_queries w names))
     = map RunQuery names"
  by (induction names) (auto simp: execute_query_def split: sum.splits prod.splits)

lemma run_queries_events:
  "ev \<in> set (fst (run_queries w names)) \<Longrightarrow>
   (\<exists>n. ev = RunQuery n) \<or> (\<exists>m. ev = Print m)"
proof (induction names arbitrary: ev)
  case Nil
  then show ?case by simp
next
  case (Cons n names)
  then show ?case
    by (auto simp: execute_query_def split: sum.splits prod.splits)
qed

text \<open>
  C6: in a run that has its configuration and its connection, when each of the six
  queries raises or returns an empty frame, the run prints the outcome of each query,
  then the message that no data was retrieved, waits for the acknowledgment, closes the
  connection and ends: the merge, the ordering and the renderer are not reached and no
  file is written.
\<close>

theorem no_data_aborts:
  assumes "config_file w = Some ls" and "load_config (Some ls) = Inr cfg"
    and "connect_ok w cfg" and "list_all (no_rows w) QUERIES"
  shows "run_program w =
           (Returned, [Print Banner, Print Rule, Connect cfg] @ fst (run_queries w QUERIES)
                       @ [Print NoData, Input, CloseConnection, Print Finished, Input])
       \<and> WriteFile output_file doc \<notin> set (snd (run_program w))"
proof -
  have e: "snd (run_queries w QUERIES) = []"
    using assms(4) by (rule run_queries_no_rows)
  have r: "run_program w =
           (Returned, [Print Banner, Print Rule, Connect cfg] @ fst (run_queries w QUERIES)
                       @ [Print NoData, Input, CloseConnection, Print Finished, Input])"
  proof -
    obtain evs where q: "run_queries w QUERIES = (evs, [])"
      using e by (cases "run_queries w QUERIES") simp
    show ?thesis using assms(1-3)
      by (simp add: run_program_def main_def build_report_def q)
  qed
  have "WriteFile output_file doc \<notin> set (fst (run_queries w QUERIES))"
    using run_queries_events [of "WriteFile output_file doc" w QUERIES] by auto
  with r show ?thesis by simp
qed

theorem no_data_aborts_witness:
  "run_program world_no_answers =
     (Returned,
      [Print Banner, Print Rule, Connect default_config,
       RunQuery ''pieces_exportees'', Print (QueryError ''pieces_exportees'' DatabaseError),
       RunQuery ''ecritures_exportees'',
       Print (QueryError ''ecritures_exportees'' DatabaseError),
       RunQuery ''pieces_non_exportees'',
       Print (QueryError ''pieces_non_exportees'' DatabaseError),
       RunQuery ''ecritures_non_exportees'',
       Print (QueryError ''ecritures_non_exportees'' DatabaseError),
       RunQuery ''comptes_attente'', Print (QueryError ''comptes_attente'' DatabaseError),
       RunQuery ''dates_extremes'', Print (QueryDone ''dates_extremes'' 0),
       Print NoData, Input, CloseConnection, Print Finished, Input])"
proof -
  have h1: "config_file world_no_answers = Some []"
    by (simp add: world_no_answers_def world_no_config_def)
  have h2: "load_config (Some []) = Inr default_config"
    by code_simp
  have h3: "connect_ok world_no_answers default_config"
    by (simp add: world_no_answers_def world_no_config_def)
  have h4: "list_all (no_rows world_no_answers) QUERIES"
    by code_simp
  have q: "fst (run_queries world_no_answers QUERIES) =
      [RunQuery ''pieces_exportees'', Print (QueryError ''pieces_exportees'' DatabaseError),
       RunQuery ''ecritures_exportees'',
       Print (QueryError ''ecritures_exportees'' DatabaseError),
       RunQuery ''pieces_non_exportees'',
       Print (QueryError ''pieces_non_exportees'' DatabaseError),
       RunQuery ''ecritures_non_exportees'',
       Print (QueryError ''ecritures_non_exportees'' DatabaseError),
       RunQuery ''comptes_attente'', Print (QueryError ''comptes_attente'' DatabaseError),
       RunQuery ''dates_extremes'', Print (QueryDone ''dates_extremes'' 0)]"
    by code_simp
  from no_data_aborts [OF h1 h2 h3 h4, THEN conjunct1] q show ?thesis by simp
qed

text \<open>
  C1, at the input where the code departs from it: every query of the catalog returns a
  row for dossier A except \<open>pieces_non_exportees\<close>, which raises. The failure is printed
  and the five other queries run, but the merged frame then has no column
  \<open>nb_pieces_a_traiter\<close>, the ordering raises \<open>KeyError\<close>, the handler of \<open>main\<close> prints
  it, and the renderer is never reached: no file is written.
\<close>

theorem pieces_query_failure_stops_report:
  "run_program world_pieces_query_fails =
     (Returned,
      [Print Banner, Print Rule, Connect default_config,
       RunQuery ''pieces_exportees'', Print (QueryDone ''pieces_exportees'' 1),
       RunQuery ''ecritures_exportees'', Print (QueryDone ''ecritures_exportees'' 1),
       RunQuery ''pieces_non_exportees'',
       Print (QueryError ''pieces_non_exportees'' DatabaseError),
       RunQuery ''ecritures_non_exportees'', Print (QueryDone ''ecritures_non_exportees'' 1),
       RunQuery ''comptes_attente'', Print (QueryDone ''comptes_attente'' 1),
       RunQuery ''dates_extremes'', Print (QueryDone ''dates_extremes'' 1),
       Print (GenerationError (KeyError ''nb_pieces_a_traiter'')), Input,
       CloseConnection, Print Finished, Input])"
  by code_simp

text \<open>
  The same run with the failure in \<open>comptes_attente\<close> instead goes through: the
  renderer reads the absent column with its default 0 and the file is written.
\<close>

lemma comptes_query_failure_isolated:
  "run_program world_comptes_query_fails =
     (Returned,
      [Print Banner, Print Rule, Connect default_config,
       RunQuery ''pieces_exportees'', Print (QueryDone ''pieces_exportees'' 1),
       RunQuery ''ecritures_exportees'', Print (QueryDone ''ecritures_exportees'' 1),
       RunQuery ''pieces_non_exportees'', Print (QueryDone ''pieces_non_exportees'' 1),
       RunQuery ''ecritures_non_exportees'', Print (QueryDone ''ecritures_non_exportees'' 1),
       RunQuery ''comptes_attente'', Print (QueryError ''comptes_attente'' DatabaseError),
       RunQuery ''dates_extremes'', Print (QueryDone ''dates_extremes'' 1),
       WriteFile ''kpi_dashboard_20240101.html'' report_example,
       Print (ReportWritten ''kpi_dashboard_20240101.html''), Print Rule, Print Generated,
       Print (FileIs ''kpi_dashboard_20240101.html''), Print Opening,
       OpenBrowser ''kpi_dashboard_20240101.html'',
       CloseConnection, Print Finished, Input])"
  by code_simp

section \<open>The scenario of the two tables\<close>

text \<open>
  C5: the tables \<open>[{dossier: A, nb_pieces_exportees: 5}]\<close> and
  \<open>[{dossier: A, nb_pieces_a_traiter: 60}, {dossier: B, nb_pieces_a_traiter: 3}]\<close> merge
  to the rows A with 5 and 60 and B with 0 and 3; the ordering leaves them in the order
  A, B; the renderer gives the cell "pieces to process" of A the class \<open>warning\<close> and
  that of B no class.
\<close>

theorem scenario_two_tables:
  "merge_dataframes [exportees, a_traiter] = Inr merged_example
   \<and> sort_values ''nb_pieces_a_traiter'' merged_example = Inr merged_example
   \<and> html_content merged_example =
       Inr \<lparr>total_dossiers = 2, total_pieces_a_traiter = 63, total_ecritures_a_traiter = 0,
            total_comptes_attente = 0, table_rows = [tr_A, tr_B]\<rparr>
   \<and> td_pieces_class tr_A = ''warning'' \<and> td_pieces_class tr_B = []"
  by code_simp

section \<open>Properties of the ordering\<close>






section \<open>Properties of the merger\<close>

lemma positions_set: "set (positions n ls) = {k. k < length ls \<and> ls ! k = n}"
  by (auto simp: positions_def)

lemma positions_distinct: "distinct (positions n ls)"
  by (simp add: positions_def)

lemma distinct_singleton: "distinct xs \<Longrightarrow> (xs = [i]) = (set xs = {i})"
proof
  assume "xs = [i]"
  then show "set xs = {i}" by simp
next
  assume d: "distinct xs" and s: "set xs = {i}"
  then have "length xs = 1"
    using distinct_card [OF d] by simp
  then obtain x where "xs = [x]"
    by (cases xs) auto
  with s show "xs = [i]" by simp
qed

lemma suffix_not_dossier: "x @ ''_x'' \<noteq> ''dossier''" "x @ ''_y'' \<noteq> ''dossier''"
proof -
  show "x @ ''_x'' \<noteq> ''dossier''"
  proof
    assume "x @ ''_x'' = ''dossier''"
    then have "last (x @ ''_x'') = last ''dossier''" by (rule arg_cong)
    then show False by simp
  qed
  show "x @ ''_y'' \<noteq> ''dossier''"
  proof
    assume "x @ ''_y'' = ''dossier''"
    then have "last (x @ ''_y'') = last ''dossier''" by (rule arg_cong)
    then show False by simp
  qed
qed


lemma label_position_positions:
  "label_position n df = Inr i \<longleftrightarrow> positions n (labels df) = [i]"
  by (simp add: label_position_def split: list.splits)

lemma label_position_Inr_iff:
  "label_position n df = Inr i \<longleftrightarrow>
     (i < length (columns df) \<and> fst (columns df ! i) = n
      \<and> (\<forall>k < length (columns df). fst (columns df ! k) = n \<longrightarrow> k = i))"
proof -
  have "positions n (labels df) = [i] \<longleftrightarrow> set (positions n (labels df)) = {i}"
    by (rule distinct_singleton [OF positions_distinct])
  also have "\<dots> \<longleftrightarrow> {k. k < length (columns df) \<and> fst (columns df ! k) = n} = {i}"
    by (simp add: positions_set labels_def cong: conj_cong)
  also have "\<dots> \<longleftrightarrow> (i < length (columns df) \<and> fst (columns df ! i) = n
      \<and> (\<forall>k < length (columns df). fst (columns df ! k) = n \<longrightarrow> k = i))"
    by blast
  finally show ?thesis by (simp add: label_position_positions)
qed


lemma length_drop_nth: "j < length xs \<Longrightarrow> length (drop_nth j xs) = length xs - 1"
  by (simp add: drop_nth_def)

lemma in_set_drop_nth:
  assumes "x \<in> set (drop_nth j xs)"
  shows "\<exists>k < length xs. k \<noteq> j \<and> x = xs ! k"
proof -
  from assms consider "x \<in> set (take j xs)" | "x \<in> set (drop (Suc j) xs)"
    by (auto simp: drop_nth_def)
  then show ?thesis
  proof cases
    case 1
    then obtain k where "k < length (take j xs)" "take j xs ! k = x"
      by (auto simp: in_set_conv_nth)
    then have "k < length xs" "k \<noteq> j" "x = xs ! k" by auto
    then show ?thesis by blast
  next
    case 2
    then obtain k where "k < length (drop (Suc j) xs)" "drop (Suc j) xs ! k = x"
      by (auto simp: in_set_conv_nth)
    then have "Suc j + k < length xs" "Suc j + k \<noteq> j" "x = xs ! (Suc j + k)" by auto
    then show ?thesis by blast
  qed
qed

lemma join_key_rows:
  assumes "wf_frame left" and "wf_frame right"
    and "i < length (columns left)" and "j < length (columns right)"
    and "row \<in> set (join_key left right i j k)"
  shows "row ! i = k \<and> length row = length (columns left) + (length (columns right) - 1)"
proof -
  have l: "\<And>a. a \<in> set (rows left) \<Longrightarrow> length a = length (columns left)"
    using assms(1) by (simp add: wf_frame_def list_all_iff)
  have r: "\<And>b. b \<in> set (rows right) \<Longrightarrow> length b = length (columns right)"
    using assms(2) by (simp add: wf_frame_def list_all_iff)
  from assms(5) consider
      a where "a \<in> set (rows left)" "a ! i = k"
        "row = a @ replicate (length (columns right) - 1) NaN"
    | b where "b \<in> set (rows right)"
        "row = (replicate (length (columns left)) NaN)[i := k] @ drop_nth j b"
    | a b where "a \<in> set (rows left)" "a ! i = k" "b \<in> set (rows right)"
        "row = a @ drop_nth j b"
    by (auto simp: join_key_def Let_def split: if_splits)
  then show ?thesis
  proof cases
    case 1
    with l [of a] assms(3) show ?thesis by (simp add: nth_append)
  next
    case 2
    with r [of b] assms(3,4) show ?thesis by (simp add: nth_append length_drop_nth)
  next
    case 3
    with l [of a] r [of b] assms(3,4) show ?thesis by (simp add: nth_append length_drop_nth)
  qed
qed

lemma join_key_nonempty:
  assumes "k \<in> set (column_at i left) \<union> set (column_at j right)"
  shows "join_key left right i j k \<noteq> []"
proof -
  define ls where "ls = filter (\<lambda>row. row ! i = k) (rows left)"
  define rs where "rs = filter (\<lambda>row. row ! j = k) (rows right)"
  from assms have ne: "ls \<noteq> [] \<or> rs \<noteq> []"
    by (auto simp: ls_def rs_def column_at_def filter_empty_conv)
  have jk: "join_key left right i j k =
      (if rs = [] then map (\<lambda>a. a @ replicate (length (columns right) - 1) NaN) ls
       else if ls = [] then
         map (\<lambda>b. (replicate (length (columns left)) NaN)[i := k] @ drop_nth j b) rs
       else concat (map (\<lambda>a. map (\<lambda>b. a @ drop_nth j b) rs) ls))"
    by (simp add: join_key_def ls_def rs_def Let_def)
  show ?thesis
  proof (cases "rs = []")
    case True
    with ne jk show ?thesis by simp
  next
    case False
    show ?thesis
    proof (cases ls)
      case Nil
      with False jk show ?thesis by simp
    next
      case (Cons a as)
      with False jk show ?thesis by simp
    qed
  qed
qed

lemma add_suffix_dossier:
  assumes nt: "''dossier'' \<notin> set to_rename" and s: "s = ''_x'' \<or> s = ''_y''"
  shows "(fst (add_suffix to_rename s c) = ''dossier'') = (fst c = ''dossier'')"
proof (cases "fst c \<in> set to_rename")
  case True
  then have e: "fst (add_suffix to_rename s c) = fst c @ s"
    by (simp add: add_suffix_def)
  have "fst c @ s \<noteq> ''dossier''"
  proof (cases "s = ''_x''")
    case True
    then show ?thesis by (simp only: suffix_not_dossier(1) not_False_eq_True)
  next
    case False
    with s have "s = ''_y''" by (simp only: simp_thms)
    then show ?thesis by (simp only: suffix_not_dossier(2) not_False_eq_True)
  qed
  then have a: "fst (add_suffix to_rename s c) \<noteq> ''dossier''"
    by (simp only: e not_False_eq_True)
  have b: "fst c \<noteq> ''dossier''"
  proof
    assume "fst c = ''dossier''"
    with True have "''dossier'' \<in> set to_rename" by (simp only:)
    with nt show False by (simp only: simp_thms)
  qed
  from a b show ?thesis by (simp only: simp_thms)
next
  case False
  then have "add_suffix to_rename s c = c" by (simp add: add_suffix_def)
  then show ?thesis by (simp only:)
qed

lemma pd_merge_keyed:
  assumes "keyed left" and "keyed right" and pm: "pd_merge left right = Inr m"
  shows "keyed m \<and> dossier_values m = dossier_values left \<union> dossier_values right"
proof -
  from assms(1) obtain i where i: "label_position ''dossier'' left = Inr i"
    and wl: "wf_frame left"
    by (auto simp: keyed_def split: sum.splits)
  from assms(2) obtain j where j: "label_position ''dossier'' right = Inr j"
    and wr: "wf_frame right"
    by (auto simp: keyed_def split: sum.splits)
  from i have il: "i < length (columns left)" and ik: "fst (columns left ! i) = ''dossier''"
    and iu: "\<And>k. k < length (columns left) \<Longrightarrow> fst (columns left ! k) = ''dossier'' \<Longrightarrow> k = i"
    by (simp_all add: label_position_Inr_iff)
  from j have jl: "j < length (columns right)"
    and ju: "\<And>k. k < length (columns right) \<Longrightarrow> fst (columns right ! k) = ''dossier'' \<Longrightarrow> k = j"
    by (simp_all add: label_position_Inr_iff)
  define rcols where "rcols = drop_nth j (columns right)"
  define to_rename where
    "to_rename = filter (\<lambda>c. c \<in> set (map fst rcols)) (labels left)"
  define keys where
    "keys = sort_key cell_key (remdups (column_at i left @ column_at j right))"
  define kd where "kd = (if snd (columns left ! i) = snd (columns right ! j)
                         then snd (columns left ! i) else Object)"
  define lcols where "lcols = map (add_suffix to_rename ''_x'') (columns left)"
  have m: "m = \<lparr>columns = lcols[i := (''dossier'', kd)] @ map (add_suffix to_rename ''_y'') rcols,
                 rows = concat (map (join_key left right i j) keys)\<rparr>"
    using pm
    by (simp add: pd_merge_def i j keys_def to_rename_def rcols_def kd_def lcols_def Let_def
        split: if_splits)
  have cm: "columns m = lcols[i := (''dossier'', kd)] @ map (add_suffix to_rename ''_y'') rcols"
    and rm: "rows m = concat (map (join_key left right i j) keys)"
    by (simp_all add: m)
  have ll: "length lcols = length (columns left)" by (simp add: lcols_def)
  have rc: "\<And>c. c \<in> set rcols \<Longrightarrow> fst c \<noteq> ''dossier''"
  proof -
    fix c assume "c \<in> set rcols"
    then obtain k where "k < length (columns right)" "k \<noteq> j" "c = columns right ! k"
      unfolding rcols_def using in_set_drop_nth [of c j "columns right"] by auto
    with ju [of k] show "fst c \<noteq> ''dossier''" by auto
  qed
  then have nt: "''dossier'' \<notin> set to_rename"
    by (force simp: to_rename_def)
  have sx: "\<And>c s. s = ''_x'' \<or> s = ''_y'' \<Longrightarrow>
      (fst (add_suffix to_rename s c) = ''dossier'') = (fst c = ''dossier'')"
    using nt by (rule add_suffix_dossier)
  have lenr: "length rcols = length (columns right) - 1"
    using jl by (simp add: rcols_def length_drop_nth)
  have pos: "label_position ''dossier'' m = Inr i"
  proof -
    have a: "i < length (columns m)" using il by (simp add: cm ll)
    have b: "fst (columns m ! i) = ''dossier''"
      using il by (simp add: cm ll nth_append)
    have u: "\<forall>k < length (columns m). fst (columns m ! k) = ''dossier'' \<longrightarrow> k = i"
    proof (intro allI impI)
      fix k assume k: "k < length (columns m)" and d: "fst (columns m ! k) = ''dossier''"
      show "k = i"
      proof (cases "k < length (columns left)")
        case True
        show ?thesis
        proof (rule ccontr)
          assume ne: "k \<noteq> i"
          with True d have "fst (lcols ! k) = ''dossier''"
            by (simp add: cm ll nth_append)
          with True have "fst (columns left ! k) = ''dossier''"
            by (simp add: lcols_def sx)
          with True have "k = i" by (rule iu)
          with ne show False by simp
        qed
      next
        case False
        with k have "k - length (columns left) < length rcols" by (simp add: cm ll)
        then have "rcols ! (k - length (columns left)) \<in> set rcols" by simp
        then have n: "fst (rcols ! (k - length (columns left))) \<noteq> ''dossier''" by (rule rc)
        from False d k have "fst (rcols ! (k - length (columns left))) = ''dossier''"
          by (simp add: cm ll nth_append sx)
        with n show ?thesis by (simp only: simp_thms)
      qed
    qed
    from a b u show ?thesis
      unfolding label_position_Inr_iff by (intro conjI)
  qed
  have rowsm: "\<And>row. row \<in> set (rows m) \<Longrightarrow>
      row ! i \<in> set keys \<and> length row = length (columns m)"
  proof -
    fix row assume "row \<in> set (rows m)"
    then obtain k where k: "k \<in> set keys" and "row \<in> set (join_key left right i j k)"
      by (auto simp: rm)
    from join_key_rows [OF wl wr il jl this(2)] k lenr show
      "row ! i \<in> set keys \<and> length row = length (columns m)"
      by (simp add: cm ll)
  qed
  have ks: "set keys = set (column_at i left) \<union> set (column_at j right)"
    by (simp add: keys_def)
  have cover: "\<And>k. k \<in> set keys \<Longrightarrow> k \<in> set (column_at i m)"
  proof -
    fix k assume k: "k \<in> set keys"
    then have "join_key left right i j k \<noteq> []"
      using ks join_key_nonempty by blast
    then obtain row where row: "row \<in> set (join_key left right i j k)"
      by (cases "join_key left right i j k") auto
    then have "row ! i = k"
      using join_key_rows [OF wl wr il jl] by blast
    moreover from row k have "row \<in> set (rows m)" by (auto simp: rm)
    ultimately show "k \<in> set (column_at i m)" by (auto simp: column_at_def)
  qed
  have ck: "set (column_at i m) = set keys"
    using rowsm cover by (auto simp: column_at_def)
  have "wf_frame m" using rowsm by (simp add: wf_frame_def list_all_iff)
  then have "keyed m" by (simp add: keyed_def pos)
  moreover have "dossier_values m = dossier_values left \<union> dossier_values right"
    by (simp add: dossier_values_def pos i j ck ks)
  ultimately show ?thesis by simp
qed

lemma merge_loop_keyed:
  "keyed result \<Longrightarrow> list_all keyed dfs \<Longrightarrow> merge_loop result dfs = Inr m \<Longrightarrow>
   keyed m \<and> dossier_values m = dossier_values result \<union> (\<Union>df \<in> set dfs. dossier_values df)"
proof (induction dfs arbitrary: result)
  case Nil
  then show ?case by simp
next
  case (Cons df dfs)
  then have kd: "keyed df" and rest: "list_all keyed dfs" by simp_all
  from Cons.prems(3) obtain r where r: "pd_merge result df = Inr r"
    and l: "merge_loop r dfs = Inr m"
    by (auto split: sum.splits)
  from pd_merge_keyed [OF Cons.prems(1) kd r]
  have kr: "keyed r" and vr: "dossier_values r = dossier_values result \<union> dossier_values df"
    by simp_all
  from Cons.IH [OF kr rest l] vr show ?case by auto
qed

lemma fill_cell: "fill_str (fill_number col c) = filled col c"
  by (simp add: fill_str_def fill_number_def filled_def)

lemma fill_rows:
  "rows (fillna_str (fillna_numeric df)) =
     map (\<lambda>row. map2 filled (columns df) row) (rows df)"
  by (auto simp: fillna_str_def fillna_numeric_def fill_cell)

lemma fill_columns: "columns (fillna_str (fillna_numeric df)) = columns df"
  by (simp add: fillna_str_def fillna_numeric_def)

lemma fill_label_position:
  "label_position n (fillna_str (fillna_numeric df)) = label_position n df"
  by (simp add: label_position_def labels_def fill_columns)

lemma fill_no_nan:
  "list_all (list_all (\<lambda>c. c \<noteq> NaN)) (rows (fillna_str (fillna_numeric df)))"
  by (auto simp: fillna_str_def fillna_numeric_def list_all_iff fill_str_def)

lemma filled_not_nan: "filled col c \<noteq> NaN"
  by (simp add: filled_def)

lemma fill_keyed:
  assumes "keyed df" and i: "label_position ''dossier'' df = Inr i"
  shows "keyed (fillna_str (fillna_numeric df))
       \<and> dossier_values (fillna_str (fillna_numeric df))
           = filled (columns df ! i) ` dossier_values df"
proof -
  from assms(1) have w: "wf_frame df" by (simp add: keyed_def)
  from i have il: "i < length (columns df)" by (simp add: label_position_Inr_iff)
  have len: "\<And>row. row \<in> set (rows df) \<Longrightarrow> length row = length (columns df)"
    using w by (simp add: wf_frame_def list_all_iff)
  have cell: "\<And>row. row \<in> set (rows df) \<Longrightarrow>
      map2 filled (columns df) row ! i = filled (columns df ! i) (row ! i)"
    using len il by simp
  have col: "column_at i (fillna_str (fillna_numeric df))
      = map (filled (columns df ! i)) (column_at i df)"
    using cell by (simp add: column_at_def fill_rows)
  have "wf_frame (fillna_str (fillna_numeric df))"
    using len by (simp add: wf_frame_def fill_rows fill_columns list_all_iff)
  then show ?thesis
    by (simp add: keyed_def dossier_values_def fill_label_position i col)
qed

lemma merge_dataframes_joined:
  assumes "dataframes \<noteq> []" and "merge_dataframes dataframes = Inr merged"
  shows "\<exists>joined. merge_loop (hd dataframes) (tl dataframes) = Inr joined
           \<and> merged = fillna_str (fillna_numeric joined)"
proof -
  from assms(1) obtain first rest where d: "dataframes = first # rest"
    by (cases dataframes) auto
  with assms(2) show ?thesis
    by (auto simp: merge_dataframes_def split: sum.splits)
qed

lemma merge_dataframes_keys:
  assumes "dataframes \<noteq> []" and "list_all keyed dataframes"
    and "merge_dataframes dataframes = Inr merged"
  shows "\<exists>i. label_position ''dossier'' merged = Inr i \<and> keyed merged
           \<and> dossier_values merged
               = filled (columns merged ! i) ` (\<Union>df \<in> set dataframes. dossier_values df)"
proof -
  from assms(1) obtain first rest where d: "dataframes = first # rest"
    by (cases dataframes) auto
  from merge_dataframes_joined [OF assms(1,3)] d obtain joined where
    j: "merge_loop first rest = Inr joined" and f: "merged = fillna_str (fillna_numeric joined)"
    by auto
  from assms(2) d have "keyed first" "list_all keyed rest" by simp_all
  from merge_loop_keyed [OF this j]
  have kj: "keyed joined"
    and vj: "dossier_values joined = (\<Union>df \<in> set dataframes. dossier_values df)"
    by (simp_all add: d)
  from kj obtain i where i: "label_position ''dossier'' joined = Inr i"
    by (auto simp: keyed_def split: sum.splits)
  from fill_keyed [OF kj i] vj i show ?thesis
    by (auto simp: f fill_label_position fill_columns)
qed

text \<open>
  A join returns a frame when both frames are keyed, the key columns have the same
  dtype, and the frames share no label but the key.
\<close>

lemma suffix_duplicates_same: "\<not> suffix_duplicates ls ls"
  by (auto simp: suffix_duplicates_def list_ex_iff)

lemma pd_merge_returns:
  assumes "label_position ''dossier'' left = Inr i" and "label_position ''dossier'' right = Inr j"
    and "snd (columns left ! i) = snd (columns right ! j)"
    and "set (labels left) \<inter> set (map fst (drop_nth j (columns right))) = {}"
  shows "\<exists>m. pd_merge left right = Inr m"
proof -
  have t: "filter (\<lambda>c. c \<in> fst ` set (drop_nth j (columns right))) (map fst (columns left)) = []"
    using assms(4) by (auto simp: filter_empty_conv labels_def)
  have a: "\<And>s cols. map (fst \<circ> add_suffix [] s) cols = map fst cols"
    by (simp add: add_suffix_def)
  have b: "\<And>s cols. map (add_suffix [] s) cols = cols"
    by (simp add: add_suffix_def map_idI)
  show ?thesis
    using assms(1-3)
    by (simp add: pd_merge_def Let_def t a b key_conflict_def suffix_duplicates_same labels_def)
qed

text \<open>The joins that the library refuses.\<close>

lemma merge_refuses_mixed_keys:
  "pd_merge numbered_dossiers a_traiter = Inl ValueError
   \<and> merge_dataframes [a_traiter, numbered_dossiers] = Inl ValueError"
  by code_simp

lemma merge_refuses_suffix_duplicate:
  "pd_merge twice_suffixed a_traiter = Inl MergeError"
  by code_simp

text \<open>
  C2, as the code has it. A table keyed by \<open>dossier\<close> whose row has no dossier (a NULL
  of the database) comes out of the merge with the empty string as its dossier: the
  missing key is dropped and the empty key is invented.
\<close>

theorem merge_fills_missing_dossier:
  "keyed null_dossier \<and> label_position ''dossier'' null_dossier = Inr 0
   \<and> column_at 0 null_dossier = [NaN]
   \<and> merge_dataframes [null_dossier] = Inr (null_dossier\<lparr>rows := [[StrV [], NumV 1]]\<rparr>)"
  by code_simp

text \<open>
  C2, amended. For every non-empty list of frames keyed by \<open>dossier\<close>, whenever the
  merge returns a frame, the set of the dossier values of that frame is the union of
  the sets of the dossier values of the given frames in which a missing dossier is
  replaced by the filling of the key column (the empty string, or 0 in a key column of
  numbers). When no row of the given frames misses its dossier, the two sets are equal:
  no key is dropped and none is invented.
\<close>

theorem merge_keys_union:
  assumes "dataframes \<noteq> []" and "list_all keyed dataframes"
    and "merge_dataframes dataframes = Inr merged"
  shows "(\<exists>i. label_position ''dossier'' merged = Inr i
            \<and> dossier_values merged
                = filled (columns merged ! i) ` (\<Union>df \<in> set dataframes. dossier_values df))
       \<and> (list_all (\<lambda>df. NaN \<notin> dossier_values df) dataframes
            \<longrightarrow> dossier_values merged = (\<Union>df \<in> set dataframes. dossier_values df))"
proof -
  from merge_dataframes_keys [OF assms] obtain i where
    i: "label_position ''dossier'' merged = Inr i"
    and v: "dossier_values merged
        = filled (columns merged ! i) ` (\<Union>df \<in> set dataframes. dossier_values df)"
    by blast
  have "list_all (\<lambda>df. NaN \<notin> dossier_values df) dataframes
      \<longrightarrow> dossier_values merged = (\<Union>df \<in> set dataframes. dossier_values df)"
  proof
    assume "list_all (\<lambda>df. NaN \<notin> dossier_values df) dataframes"
    then have "\<And>c. c \<in> (\<Union>df \<in> set dataframes. dossier_values df) \<Longrightarrow> c \<noteq> NaN"
      by (auto simp: list_all_iff)
    then have "filled (columns merged ! i) ` (\<Union>df \<in> set dataframes. dossier_values df)
        = (\<Union>df \<in> set dataframes. dossier_values df)"
      by (force simp: filled_def image_iff)
    with v show "dossier_values merged = (\<Union>df \<in> set dataframes. dossier_values df)"
      by simp
  qed
  with i v show ?thesis by blast
qed

theorem merge_keys_union_witness:
  "merge_dataframes [exportees, a_traiter] = Inr merged_example
   \<and> dossier_values merged_example
       = (\<Union>df \<in> set [exportees, a_traiter]. dossier_values df)"
proof -
  have h1: "[exportees, a_traiter] \<noteq> []" by simp
  have h2: "list_all keyed [exportees, a_traiter]" by code_simp
  have h3: "merge_dataframes [exportees, a_traiter] = Inr merged_example" by code_simp
  have h4: "list_all (\<lambda>df. NaN \<notin> dossier_values df) [exportees, a_traiter]" by code_simp
  from merge_keys_union [OF h1 h2 h3] h3 h4 show ?thesis by blast
qed

text \<open>
  C3, as the code has it. A table keyed by \<open>dossier\<close> whose row has the empty string
  as its dossier is returned by the merge as it is: the key of that row of the merged
  table is empty.
\<close>

theorem merged_dossier_may_be_empty:
  "keyed blank_dossier \<and> merge_dataframes [blank_dossier] = Inr blank_dossier
   \<and> label_position ''dossier'' blank_dossier = Inr 0
   \<and> column_at 0 blank_dossier = [StrV []]"
  by code_simp

text \<open>
  C3, amended. For every list of frames, whenever the merge returns a frame, no cell
  of that frame is missing: it is the joined frame in which every missing cell is
  filled, by 0 in the columns of numbers and by the empty string in the other columns.
  When the frames of a non-empty list are keyed by \<open>dossier\<close>, every row of the merged
  frame has one cell per column and a dossier that is not missing, and that dossier is
  the empty string only if a row of one of the given frames has the empty string as
  its dossier or has no dossier.
\<close>

theorem merged_cells_filled:
  assumes "merge_dataframes dataframes = Inr merged"
  shows "list_all (list_all (\<lambda>c. c \<noteq> NaN)) (rows merged)
       \<and> (dataframes \<noteq> [] \<longrightarrow>
            (\<exists>joined. merge_loop (hd dataframes) (tl dataframes) = Inr joined
               \<and> columns merged = columns joined
               \<and> rows merged = map (\<lambda>row. map2 filled (columns joined) row) (rows joined)))
       \<and> (dataframes \<noteq> [] \<and> list_all keyed dataframes \<longrightarrow>
            wf_frame merged \<and> NaN \<notin> dossier_values merged
            \<and> (StrV [] \<in> dossier_values merged
                 \<longrightarrow> (\<exists>df \<in> set dataframes.
                        StrV [] \<in> dossier_values df \<or> NaN \<in> dossier_values df)))"
proof (intro conjI impI)
  show "list_all (list_all (\<lambda>c. c \<noteq> NaN)) (rows merged)"
  proof (cases dataframes)
    case Nil
    with assms show ?thesis by (auto simp: merge_dataframes_def DataFrame_def)
  next
    case (Cons first rest)
    then have "dataframes \<noteq> []" by simp
    from merge_dataframes_joined [OF this assms] show ?thesis
      using fill_no_nan by auto
  qed
next
  assume "dataframes \<noteq> []"
  from merge_dataframes_joined [OF this assms] show
    "\<exists>joined. merge_loop (hd dataframes) (tl dataframes) = Inr joined
       \<and> columns merged = columns joined
       \<and> rows merged = map (\<lambda>row. map2 filled (columns joined) row) (rows joined)"
    using fill_rows fill_columns by auto
next
  assume a: "dataframes \<noteq> [] \<and> list_all keyed dataframes"
  then have ne: "dataframes \<noteq> []" and k: "list_all keyed dataframes" by simp_all
  from merge_dataframes_keys [OF ne k assms] obtain i where
    km: "keyed merged"
    and v: "dossier_values merged
        = filled (columns merged ! i) ` (\<Union>df \<in> set dataframes. dossier_values df)"
    by blast
  from km show "wf_frame merged" by (simp add: keyed_def)
  show "NaN \<notin> dossier_values merged"
  proof
    assume "NaN \<in> dossier_values merged"
    with v obtain c where "NaN = filled (columns merged ! i) c" by blast
    then show False by (simp add: filled_def split: if_splits)
  qed
  assume "StrV [] \<in> dossier_values merged"
  with v obtain c df where c: "df \<in> set dataframes" "c \<in> dossier_values df"
    "filled (columns merged ! i) c = StrV []"
    by (auto simp: image_iff)
  then have "c = StrV [] \<or> c = NaN"
    by (auto simp: filled_def split: if_splits)
  with c show "\<exists>df \<in> set dataframes. StrV [] \<in> dossier_values df \<or> NaN \<in> dossier_values df"
    by auto
qed

theorem merged_cells_filled_witness:
  "list_all (list_all (\<lambda>c. c \<noteq> NaN)) (rows merged_example)
   \<and> wf_frame merged_example \<and> NaN \<notin> dossier_values merged_example"
proof -
  have h: "merge_dataframes [exportees, a_traiter] = Inr merged_example" by code_simp
  have k: "[exportees, a_traiter] \<noteq> [] \<and> list_all keyed [exportees, a_traiter]"
    by code_simp
  from merged_cells_filled [OF h] k show ?thesis by blast
qed

section \<open>The order of the rendered rows\<close>







end
